theory Spec2Isabelle
  imports Complex_Main
begin

section \<open>Data model (src/App.tsx, lines 23-31)\<close>

text \<open>
  The value returned by \<open>extractNotificationContent\<close> has the TypeScript type
  \<open>Omit<NotificationContent, 'id' | 'timestamp' | 'read'>\<close>: the fields \<open>title\<close>,
  \<open>body\<close> and the optional \<open>data\<close>. \<open>NotificationContent\<close> extends it by \<open>id\<close>
  (written \<open>id'\<close>, as \<open>id\<close> is the identity function of HOL), \<open>timestamp\<close> and
  \<open>read\<close>. An optional field is an \<open>option\<close>; the string-to-string dictionary is a map.
\<close>

record Extracted =
  title :: string
  body :: string
  data :: "(string \<rightharpoonup> string) option"

record NotificationContent = Extracted +
  id' :: string
  timestamp :: int
  read :: bool

text \<open>
  The part of \<open>FirebaseMessagingTypes.RemoteMessage\<close> that the application reads: the
  optional notification block with its optional \<open>title\<close> and \<open>body\<close>, the optional
  data dictionary and the optional message identifier.
\<close>

record Notification =
  title_n :: "string option"
  body_n :: "string option"

record RemoteMessage =
  notification :: "Notification option"
  data_rm :: "(string \<rightharpoonup> string) option"
  messageId :: "string option"

section \<open>JavaScript operators and built-ins used by the code\<close>

text \<open>
  \<open>s || d\<close> on an optional string: \<open>undefined\<close> and the empty string are falsy,
  every other string is truthy.
\<close>

definition or_else :: "string option \<Rightarrow> string \<Rightarrow> string" where
  "or_else s d = (case s of None \<Rightarrow> d | Some v \<Rightarrow> if v = [] then d else v)"

text \<open>\<open>Array.prototype.findIndex\<close>: the first index whose element satisfies the
  predicate, \<open>-1\<close> when there is none.\<close>

fun findIndex_from :: "('a \<Rightarrow> bool) \<Rightarrow> 'a list \<Rightarrow> int \<Rightarrow> int" where
  "findIndex_from P [] k = - 1"
| "findIndex_from P (x # xs) k = (if P x then k else findIndex_from P xs (k + 1))"

definition findIndex :: "('a \<Rightarrow> bool) \<Rightarrow> 'a list \<Rightarrow> int" where
  "findIndex P xs = findIndex_from P xs 0"

text \<open>
  \<open>Number.prototype.toString\<close> on an integer, as in \<open>Date.now().toString()\<close>:
  the decimal digits, with a minus sign for a negative number. JavaScript writes integers
  from \<open>10^21\<close> on with an exponent; the clock stays far below.
\<close>

fun nat_toString :: "nat \<Rightarrow> string" where
  "nat_toString n =
     (if n < 10 then [''0123456789'' ! n]
      else nat_toString (n div 10) @ [''0123456789'' ! (n mod 10)])"

definition toString :: "int \<Rightarrow> string" where
  "toString i = (if i < 0 then CHR ''-'' # nat_toString (nat (- i)) else nat_toString (nat i))"

section \<open>Display-field extraction (src/App.tsx, lines 34-49)\<close>

definition extractNotificationContent :: "RemoteMessage \<Rightarrow> Extracted" where
  "extractNotificationContent remoteMessage =
     (let displayTitle = ''New Message'';
          displayBody = ''You have a new notification.''
      in case notification remoteMessage of
           Some n \<Rightarrow>
             \<lparr>title = or_else (title_n n) displayTitle,
              body = or_else (body_n n) displayBody,
              data = data_rm remoteMessage\<rparr>
         | None \<Rightarrow>
             (case data_rm remoteMessage of
                Some d \<Rightarrow>
                  \<lparr>title = or_else (d ''title'') displayTitle,
                   body = or_else (d ''body'') displayBody,
                   data = data_rm remoteMessage\<rparr>
              | None \<Rightarrow>
                  \<lparr>title = displayTitle, body = displayBody, data = data_rm remoteMessage\<rparr>))"

section \<open>Values read back from storage\<close>

text \<open>
  \<open>JSON.parse\<close> returns whatever value the text denotes; the type annotation of
  \<open>loadNotificationsFromStorage\<close> is not checked at run time. A value is \<open>null\<close>, a
  boolean, a number, a string, an array or an object. An object is the map from its
  property names to their values; a property that is absent and a property whose value is
  \<open>undefined\<close> read the same and are both \<open>None\<close>. A string is the list of its code
  units.
\<close>

datatype js_value =
    JNull
  | JBoolean bool
  | JNumber real
  | JString string
  | JArray "js_value list"
  | JObject "string \<Rightarrow> js_value option"

datatype js_error = StorageError | SyntaxError | TypeError

text \<open>
  The own enumerable properties that an object spread \<open>{...v}\<close> copies: none for
  \<open>null\<close>, a boolean or a number, the indices for a string or an array, all of them for
  an object made by \<open>JSON.parse\<close> or by an object literal.
\<close>

definition index_props :: "js_value list \<Rightarrow> (string \<rightharpoonup> js_value)" where
  "index_props xs = map_of (zip (map (\<lambda>i. toString (int i)) [0..<length xs]) xs)"

fun own_props :: "js_value \<Rightarrow> (string \<rightharpoonup> js_value)" where
  "own_props JNull = Map.empty"
| "own_props (JBoolean b) = Map.empty"
| "own_props (JNumber x) = Map.empty"
| "own_props (JString s) = index_props (map (\<lambda>c. JString [c]) s)"
| "own_props (JArray xs) = index_props xs"
| "own_props (JObject props) = props"

text \<open>
  The callback \<open>n => n.id === notificationId\<close>: reading a property of \<open>null\<close> throws
  a \<open>TypeError\<close>; a boolean, a number, a string and an array have no property
  \<open>id\<close>; an object has the one it holds. Strict equality with a string holds for that
  string only.
\<close>

fun id_equals :: "string \<Rightarrow> js_value \<Rightarrow> js_error + bool" where
  "id_equals notificationId JNull = Inl TypeError"
| "id_equals notificationId (JObject props) = Inr (props ''id'' = Some (JString notificationId))"
| "id_equals notificationId n = Inr False"

text \<open>\<open>findIndex\<close> with a callback that may throw: the error leaves the loop.\<close>

fun findIndex_throwing_from ::
  "('a \<Rightarrow> js_error + bool) \<Rightarrow> 'a list \<Rightarrow> int \<Rightarrow> js_error + int" where
  "findIndex_throwing_from P [] k = Inr (- 1)"
| "findIndex_throwing_from P (x # xs) k =
     (case P x of
        Inl e \<Rightarrow> Inl e
      | Inr b \<Rightarrow> if b then Inr k else findIndex_throwing_from P xs (k + 1))"

definition findIndex_throwing :: "('a \<Rightarrow> js_error + bool) \<Rightarrow> 'a list \<Rightarrow> js_error + int" where
  "findIndex_throwing P xs = findIndex_throwing_from P xs 0"

text \<open>
  \<open>...extracted\<close> in an object literal: the properties \<open>title\<close>, \<open>body\<close> and
  \<open>data\<close> of the extracted content are written over those collected so far; \<open>data\<close>
  is written also when it is \<open>undefined\<close>.
\<close>

definition data_value :: "(string \<rightharpoonup> string) \<Rightarrow> js_value" where
  "data_value d = JObject (\<lambda>k. map_option JString (d k))"

definition spread_extracted :: "(string \<rightharpoonup> js_value) \<Rightarrow> Extracted \<Rightarrow> (string \<rightharpoonup> js_value)" where
  "spread_extracted props extracted =
     props(''title'' \<mapsto> JString (title extracted),
           ''body'' \<mapsto> JString (body extracted),
           ''data'' := map_option data_value (data extracted))"

text \<open>A well-typed \<open>NotificationContent\<close> as the value it is at run time.\<close>

definition record_value :: "NotificationContent \<Rightarrow> js_value" where
  "record_value r =
     JObject (Map.empty(''id'' \<mapsto> JString (id' r),
                        ''title'' \<mapsto> JString (title r),
                        ''body'' \<mapsto> JString (body r),
                        ''data'' := map_option data_value (data r),
                        ''timestamp'' \<mapsto> JNumber (of_int (timestamp r)),
                        ''read'' \<mapsto> JBoolean (read r)))"

definition records_value :: "NotificationContent list \<Rightarrow> js_value" where
  "records_value ns = JArray (map record_value ns)"

section \<open>Persistence (src/App.tsx, lines 52-73)\<close>

text \<open>
  \<open>AsyncStorage\<close> is a key-value store of strings whose operations may reject. The
  store is a record of its items and of whether the next read and the next write reject.
  \<open>JSON.stringify\<close> and \<open>JSON.parse\<close> belong to the language, not to the
  repository: they are the two fields of a codec that the persistence functions take as a
  parameter. \<open>JSON.parse\<close> throws a \<open>SyntaxError\<close> on a text that is not JSON and
  returns the value of a text that is, whatever its shape.
\<close>

record AsyncStorage =
  items :: "string \<rightharpoonup> string"
  getItem_rejects :: bool
  setItem_rejects :: bool

record JSON =
  stringify :: "js_value \<Rightarrow> string"
  parse :: "string \<Rightarrow> js_error + js_value"

definition getItem :: "string \<Rightarrow> AsyncStorage \<Rightarrow> js_error + string option" where
  "getItem key st = (if getItem_rejects st then Inl StorageError else Inr (items st key))"

definition setItem :: "string \<Rightarrow> string \<Rightarrow> AsyncStorage \<Rightarrow> js_error + AsyncStorage" where
  "setItem key v st =
     (if setItem_rejects st then Inl StorageError
      else Inr (st\<lparr>items := (items st)(key \<mapsto> v)\<rparr>))"

definition NOTIFICATION_STORAGE_KEY :: string where
  "NOTIFICATION_STORAGE_KEY = ''@notifications''"

text \<open>
  The \<open>try\<close> block yields an error or a value; the \<open>catch\<close> clause turns every error
  into the empty array. The value of \<open>JSON.parse\<close> is returned as it is.
\<close>

definition loadNotificationsFromStorage :: "JSON \<Rightarrow> AsyncStorage \<Rightarrow> js_value" where
  "loadNotificationsFromStorage J st =
     (case (case getItem NOTIFICATION_STORAGE_KEY st of
              Inl e \<Rightarrow> Inl e
            | Inr notificationsJson \<Rightarrow>
                (case notificationsJson of
                   None \<Rightarrow> Inr (JArray [])
                 | Some s \<Rightarrow> if s = [] then Inr (JArray []) else parse J s)) of
        Inl e \<Rightarrow> JArray []
      | Inr v \<Rightarrow> v)"

definition saveNotificationsToStorage :: "JSON \<Rightarrow> js_value \<Rightarrow> AsyncStorage \<Rightarrow> AsyncStorage" where
  "saveNotificationsToStorage J notifications st =
     (case setItem NOTIFICATION_STORAGE_KEY (stringify J notifications) st of
        Inl e \<Rightarrow> st
      | Inr st' \<Rightarrow> st')"

section \<open>Badge projector (src/App.tsx, lines 76-94)\<close>

definition computeUnreadCount :: "NotificationContent list \<Rightarrow> nat" where
  "computeUnreadCount notifications = length (filter (\<lambda>notif. \<not> read notif) notifications)"

text \<open>
  What \<open>messaging()\<close> gives when the badge is published: the call throws, or the
  instance or its \<open>setBadge\<close> function is missing, or both are there. The result of
  \<open>updateBadgeCount\<close> is the count handed to \<open>setBadge\<close>, if it is called.
\<close>

datatype Messaging = MessagingThrows | SetBadgeMissing | SetBadgeAvailable

definition updateBadgeCount :: "Messaging \<Rightarrow> NotificationContent list \<Rightarrow> nat option" where
  "updateBadgeCount firebaseMessagingInstance notifications =
     (let unreadCount = computeUnreadCount notifications
      in case firebaseMessagingInstance of
           MessagingThrows \<Rightarrow> None
         | SetBadgeMissing \<Rightarrow> None
         | SetBadgeAvailable \<Rightarrow> Some unreadCount)"

section \<open>Merge-or-append (src/App.tsx, lines 103-125, 237-262, 278-303, 317-342)\<close>

text \<open>
  The four delivery handlers contain the same block: look the identifier up with
  \<open>findIndex\<close>, overwrite the record found (the old record spread first, then the
  extracted fields, then \<open>timestamp\<close> and \<open>read\<close>) or push a new record. The blocks
  differ in the literal given to \<open>read\<close> only. \<open>upsert\<close> is that block with the
  literal as the parameter \<open>forced\<close> and the value of \<open>Date.now()\<close> as \<open>now\<close>,
  on a list of well-typed records. The handlers themselves are translated further down,
  each with its own literal, on the value that was loaded.
\<close>

definition upsert ::
  "NotificationContent list \<Rightarrow> string \<Rightarrow> Extracted \<Rightarrow> bool \<Rightarrow> int \<Rightarrow> NotificationContent list" where
  "upsert existingNotifications notificationId extracted forced now =
     (let existingIndex = findIndex (\<lambda>n. id' n = notificationId) existingNotifications
      in if existingIndex \<noteq> - 1 then
           existingNotifications[nat existingIndex :=
             (existingNotifications ! nat existingIndex)
               \<lparr>title := title extracted, body := body extracted, data := data extracted,
                timestamp := now, read := forced\<rparr>]
         else
           existingNotifications @
             [\<lparr>title = title extracted, body = body extracted, data = data extracted,
               id' = notificationId, timestamp = now, read = forced\<rparr>])"

text \<open>
  The same block on the value that \<open>loadNotificationsFromStorage\<close> returned. Calling
  \<open>findIndex\<close> on a value that is not an array throws a \<open>TypeError\<close> (\<open>null\<close> has
  no properties, and no other value made by \<open>JSON.parse\<close> has a function
  \<open>findIndex\<close>); so does the callback on an element \<open>null\<close> that comes before the
  first match.
\<close>

definition upsert_value ::
  "js_value \<Rightarrow> string \<Rightarrow> Extracted \<Rightarrow> bool \<Rightarrow> int \<Rightarrow> js_error + js_value" where
  "upsert_value existingNotifications notificationId extracted forced now =
     (case existingNotifications of
        JArray elems \<Rightarrow>
          (case findIndex_throwing (id_equals notificationId) elems of
             Inl e \<Rightarrow> Inl e
           | Inr existingIndex \<Rightarrow>
               if existingIndex \<noteq> - 1 then
                 Inr (JArray (elems[nat existingIndex :=
                   JObject ((spread_extracted (own_props (elems ! nat existingIndex)) extracted)
                     (''timestamp'' \<mapsto> JNumber (of_int now), ''read'' \<mapsto> JBoolean forced))]))
               else
                 Inr (JArray (elems @
                   [JObject ((spread_extracted (Map.empty(''id'' \<mapsto> JString notificationId))
                        extracted)
                     (''timestamp'' \<mapsto> JNumber (of_int now), ''read'' \<mapsto> JBoolean forced))])))
      | _ \<Rightarrow> Inl TypeError)"

text \<open>Line 215: the mapping applied by \<open>markAllNotificationsAsRead\<close>, on well-typed
  records and on the value that was loaded.\<close>

definition markAllRead :: "NotificationContent list \<Rightarrow> NotificationContent list" where
  "markAllRead existingNotifications = map (\<lambda>notif. notif\<lparr>read := True\<rparr>) existingNotifications"

definition markAllRead_value :: "js_value \<Rightarrow> js_error + js_value" where
  "markAllRead_value existingNotifications =
     (case existingNotifications of
        JArray elems \<Rightarrow>
          Inr (JArray (map (\<lambda>notif. JObject ((own_props notif)(''read'' \<mapsto> JBoolean True))) elems))
      | _ \<Rightarrow> Inl TypeError)"

text \<open>Lines 211-222: the \<open>catch\<close> clause logs the error; nothing is saved then.\<close>

definition markAllNotificationsAsRead :: "JSON \<Rightarrow> AsyncStorage \<Rightarrow> AsyncStorage" where
  "markAllNotificationsAsRead J st =
     (let existingNotifications = loadNotificationsFromStorage J st
      in case existingNotifications of
           JArray elems \<Rightarrow>
             (let updatedNotifications =
                    JArray (map (\<lambda>notif. JObject ((own_props notif)(''read'' \<mapsto> JBoolean True)))
                      elems)
              in saveNotificationsToStorage J updatedNotifications st)
         | _ \<Rightarrow> st)"

section \<open>Delivery handlers\<close>

text \<open>
  Each handler reads the clock for the identifier (used only when the message has no
  identifier) and again for the timestamp: \<open>now_id\<close> and \<open>now\<close>. Each loads the
  ledger, changes it and saves it; the refresh of the screen, the alert and the deep link
  are effects outside the ledger. A handler is an \<open>async\<close> function without a
  \<open>catch\<close>: a \<open>TypeError\<close> ends it before anything is saved.
\<close>

definition backgroundMessageHandler ::
  "JSON \<Rightarrow> RemoteMessage \<Rightarrow> int \<Rightarrow> int \<Rightarrow> AsyncStorage \<Rightarrow> js_error + AsyncStorage" where
  "backgroundMessageHandler J remoteMessage now_id now st =
     (let extracted = extractNotificationContent remoteMessage;
          notificationId = or_else (messageId remoteMessage) (toString now_id);
          existingNotifications = loadNotificationsFromStorage J st
      in case existingNotifications of
           JArray elems \<Rightarrow>
             (case findIndex_throwing (id_equals notificationId) elems of
                Inl e \<Rightarrow> Inl e
              | Inr existingIndex \<Rightarrow>
                  Inr (saveNotificationsToStorage J
                    (JArray
                      (if existingIndex \<noteq> - 1 then
                         elems[nat existingIndex :=
                           JObject
                             ((spread_extracted (own_props (elems ! nat existingIndex)) extracted)
                                (''timestamp'' \<mapsto> JNumber (of_int now),
                                 ''read'' \<mapsto> JBoolean False))]
                       else
                         elems @
                           [JObject
                             ((spread_extracted (Map.empty(''id'' \<mapsto> JString notificationId))
                                 extracted)
                                (''timestamp'' \<mapsto> JNumber (of_int now),
                                 ''read'' \<mapsto> JBoolean False))]))
                    st))
         | _ \<Rightarrow> Inl TypeError)"

definition onMessage ::
  "JSON \<Rightarrow> RemoteMessage \<Rightarrow> int \<Rightarrow> int \<Rightarrow> AsyncStorage \<Rightarrow> js_error + AsyncStorage" where
  "onMessage J remoteMessage now_id now st =
     (let extracted = extractNotificationContent remoteMessage;
          notificationId = or_else (messageId remoteMessage) (toString now_id);
          existingNotifications = loadNotificationsFromStorage J st
      in case existingNotifications of
           JArray elems \<Rightarrow>
             (case findIndex_throwing (id_equals notificationId) elems of
                Inl e \<Rightarrow> Inl e
              | Inr existingIndex \<Rightarrow>
                  if existingIndex \<noteq> - 1 then
                    (let notificationToSave =
                           JObject
                             ((spread_extracted (own_props (elems ! nat existingIndex)) extracted)
                                (''timestamp'' \<mapsto> JNumber (of_int now),
                                 ''read'' \<mapsto> JBoolean False))
                     in Inr (saveNotificationsToStorage J
                          (JArray (elems[nat existingIndex := notificationToSave])) st))
                  else
                    (let notificationToSave =
                           JObject
                             ((spread_extracted (Map.empty(''id'' \<mapsto> JString notificationId))
                                 extracted)
                                (''timestamp'' \<mapsto> JNumber (of_int now),
                                 ''read'' \<mapsto> JBoolean False))
                     in Inr (saveNotificationsToStorage J
                          (JArray (elems @ [notificationToSave])) st)))
         | _ \<Rightarrow> Inl TypeError)"

definition getInitialNotification ::
  "JSON \<Rightarrow> RemoteMessage option \<Rightarrow> int \<Rightarrow> int \<Rightarrow> AsyncStorage \<Rightarrow> js_error + AsyncStorage" where
  "getInitialNotification J remoteMessage_opt now_id now st =
     (case remoteMessage_opt of
        None \<Rightarrow> Inr st
      | Some remoteMessage \<Rightarrow>
          (let extracted = extractNotificationContent remoteMessage;
               notificationId = or_else (messageId remoteMessage) (toString now_id);
               existingNotifications = loadNotificationsFromStorage J st
           in case existingNotifications of
                JArray elems \<Rightarrow>
                  (case findIndex_throwing (id_equals notificationId) elems of
                     Inl e \<Rightarrow> Inl e
                   | Inr existingIndex \<Rightarrow>
                       if existingIndex \<noteq> - 1 then
                         (let notificationToSave =
                                JObject
                                  ((spread_extracted (own_props (elems ! nat existingIndex))
                                      extracted)
                                     (''timestamp'' \<mapsto> JNumber (of_int now),
                                      ''read'' \<mapsto> JBoolean True))
                          in Inr (saveNotificationsToStorage J
                               (JArray (elems[nat existingIndex := notificationToSave])) st))
                       else
                         (let notificationToSave =
                                JObject
                                  ((spread_extracted
                                      (Map.empty(''id'' \<mapsto> JString notificationId)) extracted)
                                     (''timestamp'' \<mapsto> JNumber (of_int now),
                                      ''read'' \<mapsto> JBoolean True))
                          in Inr (saveNotificationsToStorage J
                               (JArray (elems @ [notificationToSave])) st)))
              | _ \<Rightarrow> Inl TypeError))"

definition onNotificationOpenedApp ::
  "JSON \<Rightarrow> RemoteMessage \<Rightarrow> int \<Rightarrow> int \<Rightarrow> AsyncStorage \<Rightarrow> js_error + AsyncStorage" where
  "onNotificationOpenedApp J remoteMessage now_id now st =
     (let extracted = extractNotificationContent remoteMessage;
          notificationId = or_else (messageId remoteMessage) (toString now_id);
          existingNotifications = loadNotificationsFromStorage J st
      in case existingNotifications of
           JArray elems \<Rightarrow>
             (case findIndex_throwing (id_equals notificationId) elems of
                Inl e \<Rightarrow> Inl e
              | Inr existingIndex \<Rightarrow>
                  if existingIndex \<noteq> - 1 then
                    (let notificationToSave =
                           JObject
                             ((spread_extracted (own_props (elems ! nat existingIndex)) extracted)
                                (''timestamp'' \<mapsto> JNumber (of_int now),
                                 ''read'' \<mapsto> JBoolean True))
                     in Inr (saveNotificationsToStorage J
                          (JArray (elems[nat existingIndex := notificationToSave])) st))
                  else
                    (let notificationToSave =
                           JObject
                             ((spread_extracted (Map.empty(''id'' \<mapsto> JString notificationId))
                                 extracted)
                                (''timestamp'' \<mapsto> JNumber (of_int now),
                                 ''read'' \<mapsto> JBoolean True))
                     in Inr (saveNotificationsToStorage J
                          (JArray (elems @ [notificationToSave])) st)))
         | _ \<Rightarrow> Inl TypeError)"

section \<open>Sequences of operations on the ledger\<close>

text \<open>
  A delivery event as \<open>upsert\<close> receives it: identifier, extracted fields, forced
  \<open>read\<close> value and the time of the delivery. \<open>upsert_all\<close> applies a sequence of
  events from left to right; \<open>apply_ops\<close> applies a sequence of deliveries and
  mark-all-read actions.
\<close>

datatype event = Event (ev_id: string) (ev_extracted: Extracted) (ev_read: bool) (ev_now: int)

definition upsert_event :: "NotificationContent list \<Rightarrow> event \<Rightarrow> NotificationContent list" where
  "upsert_event ns e = upsert ns (ev_id e) (ev_extracted e) (ev_read e) (ev_now e)"

fun upsert_all :: "NotificationContent list \<Rightarrow> event list \<Rightarrow> NotificationContent list" where
  "upsert_all ns [] = ns"
| "upsert_all ns (e # es) = upsert_all (upsert_event ns e) es"

datatype ledger_op = Deliver event | MarkAllRead

fun apply_op :: "NotificationContent list \<Rightarrow> ledger_op \<Rightarrow> NotificationContent list" where
  "apply_op ns (Deliver e) = upsert_event ns e"
| "apply_op ns MarkAllRead = markAllRead ns"

fun apply_ops :: "NotificationContent list \<Rightarrow> ledger_op list \<Rightarrow> NotificationContent list" where
  "apply_ops ns [] = ns"
| "apply_ops ns (p # ps) = apply_ops (apply_op ns p) ps"

section \<open>Example values\<close>

text \<open>
  Concrete records, messages, a storage and a codec on which the theorems below are
  evaluated. The codec knows three texts only: \<open>[]\<close>, \<open>null\<close> and a text
  \<open>[m1]\<close> that stands for the array of the one record \<open>m1_unread\<close>.
\<close>

definition hi_there :: Extracted where
  "hi_there = \<lparr>title = ''Hi'', body = ''There'', data = None\<rparr>"

definition m1_unread :: NotificationContent where
  "m1_unread = \<lparr>title = ''Old'', body = ''Text'', data = None,
                 id' = ''m1'', timestamp = 1, read = False\<rparr>"

definition sample_JSON :: JSON where
  "sample_JSON =
     \<lparr>stringify = (\<lambda>v. case v of JArray [] \<Rightarrow> ''[]'' | JArray (x # xs) \<Rightarrow> ''[m1]''
                        | JNull \<Rightarrow> ''null'' | _ \<Rightarrow> ''0''),
      parse = (\<lambda>s. if s = ''[]'' then Inr (JArray [])
                    else if s = ''[m1]'' then Inr (records_value [m1_unread])
                    else if s = ''null'' then Inr JNull
                    else Inl SyntaxError)\<rparr>"

definition empty_storage :: AsyncStorage where
  "empty_storage = \<lparr>items = Map.empty, getItem_rejects = False, setItem_rejects = False\<rparr>"

definition notification_message :: RemoteMessage where
  "notification_message =
     \<lparr>notification = Some \<lparr>title_n = Some ''Hi'', body_n = None\<rparr>,
      data_rm = Some [''title'' \<mapsto> ''Call'', ''body'' \<mapsto> ''Alice''],
      messageId = Some ''m1''\<rparr>"

definition data_only_message :: RemoteMessage where
  "data_only_message =
     \<lparr>notification = None,
      data_rm = Some [''title'' \<mapsto> ''Call''],
      messageId = None\<rparr>"

definition bare_message :: RemoteMessage where
  "bare_message = \<lparr>notification = None, data_rm = None, messageId = Some ''''\<rparr>"

section \<open>Lemmas on \<open>findIndex\<close> and \<open>upsert\<close>\<close>

lemma findIndex_from_none: "\<forall>x\<in>set xs. \<not> P x \<Longrightarrow> findIndex_from P xs k = - 1"
  by (induction xs arbitrary: k) auto

lemma findIndex_from_first:
  "\<forall>y\<in>set pre. \<not> P y \<Longrightarrow> P x \<Longrightarrow> findIndex_from P (pre @ x # post) k = k + int (length pre)"
  by (induction pre arbitrary: k) auto

lemma findIndex_none: "\<forall>x\<in>set xs. \<not> P x \<Longrightarrow> findIndex P xs = - 1"
  by (simp add: findIndex_def findIndex_from_none)

lemma findIndex_first:
  "\<forall>y\<in>set pre. \<not> P y \<Longrightarrow> P x \<Longrightarrow> findIndex P (pre @ x # post) = int (length pre)"
  by (simp add: findIndex_def findIndex_from_first)

lemma upsert_novel:
  assumes "nid \<notin> id' ` set ns"
  shows "upsert ns nid e forced now =
    ns @ [\<lparr>title = title e, body = body e, data = data e,
           id' = nid, timestamp = now, read = forced\<rparr>]"
proof -
  from assms have "\<forall>n\<in>set ns. \<not> id' n = nid" by auto
  then have "findIndex (\<lambda>n. id' n = nid) ns = - 1" by (rule findIndex_none)
  then show ?thesis by (simp add: upsert_def)
qed

lemma upsert_found:
  assumes "\<forall>r\<in>set pre. id' r \<noteq> nid" and "id' old = nid"
  shows "upsert (pre @ old # post) nid e forced now =
    pre @ old\<lparr>title := title e, body := body e, data := data e,
               timestamp := now, read := forced\<rparr> # post"
proof -
  have "findIndex (\<lambda>n. id' n = nid) (pre @ old # post) = int (length pre)"
    using assms by (intro findIndex_first) auto
  then show ?thesis by (simp add: upsert_def)
qed

lemma id_split_first:
  assumes "nid \<in> id' ` set ns"
  shows "\<exists>pre old post. ns = pre @ old # post \<and> id' old = nid \<and> (\<forall>r\<in>set pre. id' r \<noteq> nid)"
proof -
  from assms have "\<exists>r\<in>set ns. id' r = nid" by auto
  from split_list_first_prop [OF this]
  obtain pre old post where "ns = pre @ old # post" "id' old = nid" "\<forall>r\<in>set pre. \<not> id' r = nid"
    by blast
  then show ?thesis by blast
qed

lemma upsert_ids:
  "map id' (upsert ns nid e forced now) =
     (if nid \<in> id' ` set ns then map id' ns else map id' ns @ [nid])"
proof (cases "nid \<in> id' ` set ns")
  case True
  then obtain pre old post where d: "ns = pre @ old # post" "id' old = nid" "\<forall>r\<in>set pre. id' r \<noteq> nid"
    using id_split_first by blast
  have "upsert ns nid e forced now = pre @ old\<lparr>title := title e, body := body e, data := data e,
               timestamp := now, read := forced\<rparr> # post"
    unfolding d(1) using d(3) d(2) by (rule upsert_found)
  then show ?thesis using True d by simp
next
  case False
  then show ?thesis by (simp add: upsert_novel)
qed

lemma upsert_has_record:
  "\<exists>r\<in>set (upsert ns nid e forced now).
      id' r = nid \<and> title r = title e \<and> body r = body e \<and> data r = data e \<and>
      timestamp r = now \<and> read r = forced"
proof (cases "nid \<in> id' ` set ns")
  case True
  then obtain pre old post where d: "ns = pre @ old # post" "id' old = nid" "\<forall>r\<in>set pre. id' r \<noteq> nid"
    using id_split_first by blast
  have "upsert (pre @ old # post) nid e forced now = pre @ old\<lparr>title := title e,
               body := body e, data := data e, timestamp := now, read := forced\<rparr> # post"
    using d(3) d(2) by (rule upsert_found)
  then show ?thesis using d by simp
next
  case False
  then show ?thesis by (simp add: upsert_novel)
qed

lemma upsert_event_ids:
  "map id' (upsert_event ns ev) =
     (if ev_id ev \<in> id' ` set ns then map id' ns else map id' ns @ [ev_id ev])"
  by (simp only: upsert_event_def upsert_ids)

lemma upsert_event_distinct:
  "distinct (map id' ns) \<Longrightarrow> distinct (map id' (upsert_event ns ev))"
  by (simp add: upsert_event_ids)

lemma upsert_event_idset:
  "set (map id' (upsert_event ns ev)) = insert (ev_id ev) (set (map id' ns))"
  by (auto simp add: upsert_event_ids)

lemma upsert_all_distinct:
  "distinct (map id' ns) \<Longrightarrow> distinct (map id' (upsert_all ns evs))"
  by (induction evs arbitrary: ns) (simp_all add: upsert_event_distinct)

lemma upsert_all_idset:
  "set (map id' (upsert_all ns evs)) = set (map id' ns) \<union> set (map ev_id evs)"
proof (induction evs arbitrary: ns)
  case Nil
  show ?case by simp
next
  case (Cons ev evs)
  have "set (map id' (upsert_all (upsert_event ns ev) evs)) =
        insert (ev_id ev) (set (map id' ns)) \<union> set (map ev_id evs)"
    by (simp only: Cons.IH upsert_event_idset)
  then show ?case by simp
qed

lemma distinct_one_record:
  "distinct (map f xs) \<Longrightarrow> i \<in> f ` set xs \<Longrightarrow> length (filter (\<lambda>r. f r = i) xs) = 1"
proof (induction xs)
  case Nil
  then show ?case by simp
next
  case (Cons x xs)
  show ?case
  proof (cases "f x = i")
    case True
    from Cons.prems(1) have "f x \<notin> f ` set xs" by simp
    with True have "\<forall>r\<in>set xs. f r \<noteq> i" by blast
    then have "filter (\<lambda>r. f r = i) xs = []" by (simp add: filter_empty_conv)
    with True show ?thesis by simp
  next
    case False
    with Cons show ?thesis by auto
  qed
qed

section \<open>Well-typed records as loaded values\<close>

lemma findIndex_from_range:
  "findIndex_from P xs k = - 1 \<or>
   (k \<le> findIndex_from P xs k \<and> findIndex_from P xs k < k + int (length xs))"
proof (induction xs arbitrary: k)
  case Nil
  show ?case by simp
next
  case (Cons x xs)
  from Cons [of "k + 1"] show ?case by auto
qed

lemma findIndex_in_range:
  assumes "findIndex P xs \<noteq> - 1"
  shows "nat (findIndex P xs) < length xs"
proof -
  from findIndex_from_range [of P xs 0] assms
  have "0 \<le> findIndex P xs \<and> findIndex P xs < int (length xs)"
    by (simp add: findIndex_def)
  then show ?thesis by linarith
qed

lemma id_equals_record_value: "id_equals nid (record_value r) = Inr (id' r = nid)"
  by (simp add: record_value_def)

lemma findIndex_throwing_from_records:
  "findIndex_throwing_from (id_equals nid) (map record_value ns) k =
     Inr (findIndex_from (\<lambda>n. id' n = nid) ns k)"
  by (induction ns arbitrary: k) (simp_all add: id_equals_record_value)

lemma findIndex_throwing_records:
  "findIndex_throwing (id_equals nid) (map record_value ns) =
     Inr (findIndex (\<lambda>n. id' n = nid) ns)"
  by (simp add: findIndex_throwing_def findIndex_def findIndex_throwing_from_records)

lemma merged_record_value:
  "JObject ((spread_extracted (own_props (record_value r)) e)
      (''timestamp'' \<mapsto> JNumber (of_int now), ''read'' \<mapsto> JBoolean forced)) =
   record_value (r\<lparr>title := title e, body := body e, data := data e,
                   timestamp := now, read := forced\<rparr>)"
  by (simp add: record_value_def spread_extracted_def fun_eq_iff)

lemma new_record_value:
  "JObject ((spread_extracted (Map.empty(''id'' \<mapsto> JString nid)) e)
      (''timestamp'' \<mapsto> JNumber (of_int now), ''read'' \<mapsto> JBoolean forced)) =
   record_value \<lparr>title = title e, body = body e, data = data e,
                  id' = nid, timestamp = now, read = forced\<rparr>"
  by (simp add: record_value_def spread_extracted_def fun_eq_iff)

lemma read_record_value:
  "JObject ((own_props (record_value r))(''read'' \<mapsto> JBoolean True)) =
   record_value (r\<lparr>read := True\<rparr>)"
  by (simp add: record_value_def fun_eq_iff)

lemma upsert_value_records:
  "upsert_value (records_value ns) nid e forced now =
     Inr (records_value (upsert ns nid e forced now))"
proof (cases "findIndex (\<lambda>n. id' n = nid) ns = - 1")
  case True
  then show ?thesis
    by (simp add: upsert_value_def upsert_def records_value_def findIndex_throwing_records
        new_record_value)
next
  case False
  then have "nat (findIndex (\<lambda>n. id' n = nid) ns) < length ns"
    by (rule findIndex_in_range)
  with False show ?thesis
    by (simp add: upsert_value_def upsert_def records_value_def findIndex_throwing_records
        merged_record_value map_update Let_def)
qed

lemma markAllRead_value_records:
  "markAllRead_value (records_value ns) = Inr (records_value (markAllRead ns))"
  by (simp add: markAllRead_value_def markAllRead_def records_value_def read_record_value)

lemma upsert_value_not_array:
  "(\<forall>elems. v \<noteq> JArray elems) \<Longrightarrow> upsert_value v nid e forced now = Inl TypeError"
  by (cases v) (simp_all add: upsert_value_def)

section \<open>The properties\<close>

text \<open>
  C1. Starting from a ledger that has at most one record per identifier (the empty
  ledger is one), every sequence of delivery events applied by \<open>upsert\<close> gives a
  ledger that has at most one record per identifier, whose identifiers are those of the
  starting ledger and those delivered, and that holds exactly one record for each of
  them, however often an identifier was delivered. The sequence is arbitrary, so this
  holds after each upsert.
\<close>

theorem upsert_all_one_record_per_id:
  assumes "distinct (map id' ns)"
  shows "distinct (map id' (upsert_all ns evs)) \<and>
         set (map id' (upsert_all ns evs)) = set (map id' ns) \<union> set (map ev_id evs) \<and>
         (\<forall>i \<in> set (map id' ns) \<union> set (map ev_id evs).
            length (filter (\<lambda>r. id' r = i) (upsert_all ns evs)) = 1)"
proof -
  have d: "distinct (map id' (upsert_all ns evs))"
    using assms by (rule upsert_all_distinct)
  have s: "set (map id' (upsert_all ns evs)) = set (map id' ns) \<union> set (map ev_id evs)"
    by (rule upsert_all_idset)
  have "length (filter (\<lambda>r. id' r = i) (upsert_all ns evs)) = 1"
    if "i \<in> set (map id' ns) \<union> set (map ev_id evs)" for i
  proof -
    from that s have "i \<in> id' ` set (upsert_all ns evs)" by simp
    with d show ?thesis by (rule distinct_one_record)
  qed
  with d s show ?thesis by blast
qed

theorem upsert_all_one_record_per_id_witness:
  "distinct (map id' [m1_unread]) \<and>
   distinct (map id' (upsert_all [m1_unread]
      [Event ''m2'' hi_there False 5, Event ''m1'' hi_there True 6, Event ''m2'' hi_there True 7])) \<and>
   set (map id' (upsert_all [m1_unread]
      [Event ''m2'' hi_there False 5, Event ''m1'' hi_there True 6, Event ''m2'' hi_there True 7])) =
     {''m1'', ''m2''}"
proof -
  have h: "distinct (map id' [m1_unread])" by simp
  from upsert_all_one_record_per_id [OF h, where evs =
      "[Event ''m2'' hi_there False 5, Event ''m1'' hi_there True 6, Event ''m2'' hi_there True 7]"]
  show ?thesis using h by (auto simp add: m1_unread_def)
qed

text \<open>
  C2. \<open>upsert\<close> with an identifier already in the list returns a list of the same
  length; with an identifier not in the list it returns a list one longer.
\<close>

theorem upsert_length:
  "(nid \<in> id' ` set ns \<longrightarrow> length (upsert ns nid e forced now) = length ns) \<and>
   (nid \<notin> id' ` set ns \<longrightarrow> length (upsert ns nid e forced now) = length ns + 1)"
proof -
  have "length (upsert ns nid e forced now) = length (map id' (upsert ns nid e forced now))"
    by simp
  also have "\<dots> = (if nid \<in> id' ` set ns then length ns else length ns + 1)"
    by (simp only: upsert_ids) simp
  finally show ?thesis by simp
qed

theorem upsert_length_witness:
  "(''m1'' \<in> id' ` set [m1_unread] \<and>
      length (upsert [m1_unread] ''m1'' hi_there True 7) = length [m1_unread]) \<and>
   (''m2'' \<notin> id' ` set [m1_unread] \<and>
      length (upsert [m1_unread] ''m2'' hi_there True 7) = length [m1_unread] + 1)"
  using upsert_length [where nid = "''m1''" and ns = "[m1_unread]" and e = hi_there
          and forced = True and now = 7]
        upsert_length [where nid = "''m2''" and ns = "[m1_unread]" and e = hi_there
          and forced = True and now = 7]
  by (simp add: m1_unread_def)

text \<open>
  C3. \<open>computeUnreadCount\<close>, the value that the badge projector hands to
  \<open>setBadge\<close>, is the number of positions of the list whose record has \<open>read\<close>
  false. It is a total function of the list with no error result, and the equality holds
  in particular for the ledger reached by any sequence of upserts and mark-all-read
  actions.
\<close>

theorem computeUnreadCount_counts_unread:
  "computeUnreadCount ns = card {i. i < length ns \<and> \<not> read (ns ! i)} \<and>
   computeUnreadCount (apply_ops ns ops) =
     card {i. i < length (apply_ops ns ops) \<and> \<not> read (apply_ops ns ops ! i)} \<and>
   updateBadgeCount SetBadgeAvailable ns = Some (card {i. i < length ns \<and> \<not> read (ns ! i)})"
  by (simp add: computeUnreadCount_def updateBadgeCount_def length_filter_conv_card)

text \<open>
  C4. If a record with the incoming identifier exists, \<open>upsert\<close> replaces the first
  such record by the old record with the new title, body and data, the timestamp set to
  \<open>now\<close> and \<open>read\<close> set to the forced value, and leaves the list around it as it
  was. If there is none, it appends a record with the given identifier, title, body and
  data, timestamp \<open>now\<close> and \<open>read\<close> the forced value.
\<close>

theorem upsert_merges_or_appends:
  "(nid \<in> id' ` set ns \<longrightarrow>
      (\<exists>pre old post. ns = pre @ old # post \<and> id' old = nid \<and> (\<forall>r\<in>set pre. id' r \<noteq> nid) \<and>
         upsert ns nid e forced now =
           pre @ old\<lparr>title := title e, body := body e, data := data e,
                      timestamp := now, read := forced\<rparr> # post)) \<and>
   (nid \<notin> id' ` set ns \<longrightarrow>
      upsert ns nid e forced now =
        ns @ [\<lparr>title = title e, body = body e, data = data e,
               id' = nid, timestamp = now, read = forced\<rparr>])"
proof (intro conjI impI)
  assume "nid \<in> id' ` set ns"
  then obtain pre old post where d: "ns = pre @ old # post" "id' old = nid" "\<forall>r\<in>set pre. id' r \<noteq> nid"
    using id_split_first by blast
  have "upsert ns nid e forced now = pre @ old\<lparr>title := title e, body := body e, data := data e,
               timestamp := now, read := forced\<rparr> # post"
    unfolding d(1) using d(3) d(2) by (rule upsert_found)
  with d show "\<exists>pre old post. ns = pre @ old # post \<and> id' old = nid \<and> (\<forall>r\<in>set pre. id' r \<noteq> nid) \<and>
         upsert ns nid e forced now =
           pre @ old\<lparr>title := title e, body := body e, data := data e,
                      timestamp := now, read := forced\<rparr> # post"
    by blast
next
  assume "nid \<notin> id' ` set ns"
  then show "upsert ns nid e forced now =
        ns @ [\<lparr>title = title e, body = body e, data = data e,
               id' = nid, timestamp = now, read = forced\<rparr>]"
    by (rule upsert_novel)
qed

theorem upsert_merges_or_appends_witness:
  "(''m1'' \<in> id' ` set [m1_unread] \<and>
      upsert [m1_unread] ''m1'' hi_there True 7 =
        [\<lparr>title = ''Hi'', body = ''There'', data = None,
          id' = ''m1'', timestamp = 7, read = True\<rparr>]) \<and>
   (''m2'' \<notin> id' ` set [m1_unread] \<and>
      upsert [m1_unread] ''m2'' hi_there True 7 =
        [m1_unread, \<lparr>title = ''Hi'', body = ''There'', data = None,
          id' = ''m2'', timestamp = 7, read = True\<rparr>])"
  using upsert_merges_or_appends [where nid = "''m1''" and ns = "[m1_unread]" and e = hi_there
          and forced = True and now = 7]
        upsert_merges_or_appends [where nid = "''m2''" and ns = "[m1_unread]" and e = hi_there
          and forced = True and now = 7]
  by (auto simp add: m1_unread_def hi_there_def Cons_eq_append_conv)

text \<open>
  C5. The foreground handler \<open>onMessage\<close> and the background handler apply the
  merge-or-append block with the forced \<open>read\<close> value false to the value loaded and
  save the result; the handlers for a tap that reopened the application from the
  background (\<open>onNotificationOpenedApp\<close>) and for a tap that launched it
  (\<open>getInitialNotification\<close>) do so with the forced value true. On an array of
  well-typed records the block is \<open>upsert\<close> with that forced value.
\<close>

theorem handlers_forced_read:
  "onMessage J rm now_id now st =
     (case upsert_value (loadNotificationsFromStorage J st)
             (or_else (messageId rm) (toString now_id)) (extractNotificationContent rm) False now of
        Inl err \<Rightarrow> Inl err
      | Inr v \<Rightarrow> Inr (saveNotificationsToStorage J v st)) \<and>
   backgroundMessageHandler J rm now_id now st =
     (case upsert_value (loadNotificationsFromStorage J st)
             (or_else (messageId rm) (toString now_id)) (extractNotificationContent rm) False now of
        Inl err \<Rightarrow> Inl err
      | Inr v \<Rightarrow> Inr (saveNotificationsToStorage J v st)) \<and>
   onNotificationOpenedApp J rm now_id now st =
     (case upsert_value (loadNotificationsFromStorage J st)
             (or_else (messageId rm) (toString now_id)) (extractNotificationContent rm) True now of
        Inl err \<Rightarrow> Inl err
      | Inr v \<Rightarrow> Inr (saveNotificationsToStorage J v st)) \<and>
   getInitialNotification J (Some rm) now_id now st =
     (case upsert_value (loadNotificationsFromStorage J st)
             (or_else (messageId rm) (toString now_id)) (extractNotificationContent rm) True now of
        Inl err \<Rightarrow> Inl err
      | Inr v \<Rightarrow> Inr (saveNotificationsToStorage J v st)) \<and>
   upsert_value (records_value ns) nid e forced now =
     Inr (records_value (upsert ns nid e forced now))"
proof (intro conjI)
  show "onMessage J rm now_id now st =
     (case upsert_value (loadNotificationsFromStorage J st)
             (or_else (messageId rm) (toString now_id)) (extractNotificationContent rm) False now of
        Inl err \<Rightarrow> Inl err
      | Inr v \<Rightarrow> Inr (saveNotificationsToStorage J v st))"
    by (simp add: onMessage_def upsert_value_def Let_def split: js_value.splits sum.splits)
  show "backgroundMessageHandler J rm now_id now st =
     (case upsert_value (loadNotificationsFromStorage J st)
             (or_else (messageId rm) (toString now_id)) (extractNotificationContent rm) False now of
        Inl err \<Rightarrow> Inl err
      | Inr v \<Rightarrow> Inr (saveNotificationsToStorage J v st))"
    by (simp add: backgroundMessageHandler_def upsert_value_def Let_def
        split: js_value.splits sum.splits)
  show "onNotificationOpenedApp J rm now_id now st =
     (case upsert_value (loadNotificationsFromStorage J st)
             (or_else (messageId rm) (toString now_id)) (extractNotificationContent rm) True now of
        Inl err \<Rightarrow> Inl err
      | Inr v \<Rightarrow> Inr (saveNotificationsToStorage J v st))"
    by (simp add: onNotificationOpenedApp_def upsert_value_def Let_def
        split: js_value.splits sum.splits)
  show "getInitialNotification J (Some rm) now_id now st =
     (case upsert_value (loadNotificationsFromStorage J st)
             (or_else (messageId rm) (toString now_id)) (extractNotificationContent rm) True now of
        Inl err \<Rightarrow> Inl err
      | Inr v \<Rightarrow> Inr (saveNotificationsToStorage J v st))"
    by (simp add: getInitialNotification_def upsert_value_def Let_def
        split: js_value.splits sum.splits)
  show "upsert_value (records_value ns) nid e forced now =
     Inr (records_value (upsert ns nid e forced now))"
    by (rule upsert_value_records)
qed

text \<open>
  C6. \<open>markAllRead\<close> is idempotent, and after one application every record has
  \<open>read\<close> true. \<open>markAllNotificationsAsRead\<close> saves the loaded value mapped in
  this way, which on an array of well-typed records is \<open>markAllRead\<close>.
\<close>

theorem markAllRead_idempotent:
  "markAllRead (markAllRead ns) = markAllRead ns \<and>
   (\<forall>n\<in>set (markAllRead ns). read n) \<and>
   markAllNotificationsAsRead J st =
     (case markAllRead_value (loadNotificationsFromStorage J st) of
        Inl err \<Rightarrow> st
      | Inr v \<Rightarrow> saveNotificationsToStorage J v st) \<and>
   markAllRead_value (records_value ms) = Inr (records_value (markAllRead ms))"
proof (intro conjI)
  show "markAllRead (markAllRead ns) = markAllRead ns"
    by (simp add: markAllRead_def)
  show "\<forall>n\<in>set (markAllRead ns). read n"
    by (simp add: markAllRead_def)
  show "markAllNotificationsAsRead J st =
     (case markAllRead_value (loadNotificationsFromStorage J st) of
        Inl err \<Rightarrow> st
      | Inr v \<Rightarrow> saveNotificationsToStorage J v st)"
    by (simp add: markAllNotificationsAsRead_def markAllRead_value_def Let_def
        split: js_value.splits)
  show "markAllRead_value (records_value ms) = Inr (records_value (markAllRead ms))"
    by (rule markAllRead_value_records)
qed

theorem markAllRead_idempotent_witness:
  "markAllRead (markAllRead [m1_unread]) = markAllRead [m1_unread] \<and>
   m1_unread\<lparr>read := True\<rparr> \<in> set (markAllRead [m1_unread]) \<and>
   read (m1_unread\<lparr>read := True\<rparr>)"
  using markAllRead_idempotent [where ns = "[m1_unread]"]
  by (simp add: markAllRead_def)




text \<open>
  C8, as stated, fails for a stored text that is JSON but not an array of records: the
  value of \<open>JSON.parse\<close> is returned as it is. With the text \<open>null\<close> in the store,
  load returns \<open>null\<close>, not the empty array, and the foreground handler that calls
  \<open>findIndex\<close> on it ends in a \<open>TypeError\<close>.
\<close>

theorem load_fails_soft_counterexample:
  "parse sample_JSON ''null'' = Inr JNull \<and>
   loadNotificationsFromStorage sample_JSON
     (empty_storage\<lparr>items := [NOTIFICATION_STORAGE_KEY \<mapsto> ''null'']\<rparr>) = JNull \<and>
   JNull \<noteq> JArray [] \<and>
   onMessage sample_JSON notification_message 5 6
     (empty_storage\<lparr>items := [NOTIFICATION_STORAGE_KEY \<mapsto> ''null'']\<rparr>) = Inl TypeError"
  by (simp add: sample_JSON_def empty_storage_def loadNotificationsFromStorage_def
      getItem_def onMessage_def NOTIFICATION_STORAGE_KEY_def)

text \<open>
  C8, amended. \<open>loadNotificationsFromStorage\<close> never raises: it has no error result,
  every error of its \<open>try\<close> block ends in the \<open>catch\<close> clause. It returns the empty
  array when the read is rejected, when there is no value under the key, when the value is
  the empty text, and when \<open>JSON.parse\<close> throws on it. A stored text that
  \<open>JSON.parse\<close> accepts is returned as parsed, whether or not it is an array of
  records.
\<close>

theorem load_fails_soft:
  "(getItem_rejects st \<or>
    items st NOTIFICATION_STORAGE_KEY = None \<or>
    items st NOTIFICATION_STORAGE_KEY = Some [] \<or>
    (\<exists>s e. items st NOTIFICATION_STORAGE_KEY = Some s \<and> parse J s = Inl e) \<longrightarrow>
      loadNotificationsFromStorage J st = JArray []) \<and>
   (\<forall>s v. \<not> getItem_rejects st \<and> items st NOTIFICATION_STORAGE_KEY = Some s \<and> s \<noteq> [] \<and>
          parse J s = Inr v \<longrightarrow>
      loadNotificationsFromStorage J st = v)"
proof (intro conjI impI allI)
  assume "getItem_rejects st \<or>
    items st NOTIFICATION_STORAGE_KEY = None \<or>
    items st NOTIFICATION_STORAGE_KEY = Some [] \<or>
    (\<exists>s e. items st NOTIFICATION_STORAGE_KEY = Some s \<and> parse J s = Inl e)"
  then show "loadNotificationsFromStorage J st = JArray []"
    by (auto simp add: loadNotificationsFromStorage_def getItem_def)
next
  fix s v
  assume "\<not> getItem_rejects st \<and> items st NOTIFICATION_STORAGE_KEY = Some s \<and> s \<noteq> [] \<and>
          parse J s = Inr v"
  then show "loadNotificationsFromStorage J st = v"
    by (simp add: loadNotificationsFromStorage_def getItem_def)
qed

theorem load_fails_soft_witness:
  "(items empty_storage NOTIFICATION_STORAGE_KEY = None \<and>
      loadNotificationsFromStorage sample_JSON empty_storage = JArray []) \<and>
   (items (empty_storage\<lparr>items := [NOTIFICATION_STORAGE_KEY \<mapsto> ''{bad'']\<rparr>)
        NOTIFICATION_STORAGE_KEY = Some ''{bad'' \<and>
      parse sample_JSON ''{bad'' = Inl SyntaxError \<and>
      loadNotificationsFromStorage sample_JSON
        (empty_storage\<lparr>items := [NOTIFICATION_STORAGE_KEY \<mapsto> ''{bad'']\<rparr>) = JArray []) \<and>
   (getItem_rejects (empty_storage\<lparr>getItem_rejects := True\<rparr>) \<and>
      loadNotificationsFromStorage sample_JSON
        (empty_storage\<lparr>getItem_rejects := True\<rparr>) = JArray []) \<and>
   (items (empty_storage\<lparr>items := [NOTIFICATION_STORAGE_KEY \<mapsto> ''[m1]'']\<rparr>)
        NOTIFICATION_STORAGE_KEY = Some ''[m1]'' \<and>
      parse sample_JSON ''[m1]'' = Inr (records_value [m1_unread]) \<and>
      loadNotificationsFromStorage sample_JSON
        (empty_storage\<lparr>items := [NOTIFICATION_STORAGE_KEY \<mapsto> ''[m1]'']\<rparr>) =
        records_value [m1_unread])"
  using load_fails_soft [where st = empty_storage and J = sample_JSON]
        load_fails_soft [where st = "empty_storage\<lparr>items := [NOTIFICATION_STORAGE_KEY \<mapsto> ''{bad'']\<rparr>"
          and J = sample_JSON]
        load_fails_soft [where st = "empty_storage\<lparr>getItem_rejects := True\<rparr>"
          and J = sample_JSON]
        load_fails_soft [where st = "empty_storage\<lparr>items := [NOTIFICATION_STORAGE_KEY \<mapsto> ''[m1]'']\<rparr>"
          and J = sample_JSON]
  by (simp add: empty_storage_def sample_JSON_def)

text \<open>
  C9. The display fields come from the notification block when the message has one,
  otherwise from the data dictionary when it has one, otherwise they are the fixed
  strings \<open>New Message\<close> and \<open>You have a new notification.\<close>; within the block chosen,
  a missing or empty field is replaced by the fixed string. The record that \<open>upsert\<close>
  writes for the message carries the title and body so extracted.
\<close>

theorem extract_preference_order:
  "(\<forall>n. notification rm = Some n \<longrightarrow>
        title (extractNotificationContent rm) = or_else (title_n n) ''New Message'' \<and>
        body (extractNotificationContent rm) = or_else (body_n n) ''You have a new notification.'') \<and>
   (\<forall>d. notification rm = None \<and> data_rm rm = Some d \<longrightarrow>
        title (extractNotificationContent rm) = or_else (d ''title'') ''New Message'' \<and>
        body (extractNotificationContent rm) = or_else (d ''body'') ''You have a new notification.'') \<and>
   (notification rm = None \<and> data_rm rm = None \<longrightarrow>
        title (extractNotificationContent rm) = ''New Message'' \<and>
        body (extractNotificationContent rm) = ''You have a new notification.'') \<and>
   (\<exists>r\<in>set (upsert ns nid (extractNotificationContent rm) forced now).
        id' r = nid \<and> title r = title (extractNotificationContent rm) \<and>
        body r = body (extractNotificationContent rm))"
proof (intro conjI allI impI)
  show "\<exists>r\<in>set (upsert ns nid (extractNotificationContent rm) forced now).
        id' r = nid \<and> title r = title (extractNotificationContent rm) \<and>
        body r = body (extractNotificationContent rm)"
    using upsert_has_record [of ns nid "extractNotificationContent rm" forced now] by blast
qed (simp_all add: extractNotificationContent_def)

theorem extract_preference_order_witness:
  "(notification notification_message = Some \<lparr>title_n = Some ''Hi'', body_n = None\<rparr> \<and>
      title (extractNotificationContent notification_message) = ''Hi'' \<and>
      body (extractNotificationContent notification_message) = ''You have a new notification.'') \<and>
   (notification data_only_message = None \<and>
      data_rm data_only_message = Some [''title'' \<mapsto> ''Call''] \<and>
      title (extractNotificationContent data_only_message) = ''Call'' \<and>
      body (extractNotificationContent data_only_message) = ''You have a new notification.'') \<and>
   (notification bare_message = None \<and> data_rm bare_message = None \<and>
      title (extractNotificationContent bare_message) = ''New Message'' \<and>
      body (extractNotificationContent bare_message) = ''You have a new notification.'')"
  using extract_preference_order [where rm = notification_message]
        extract_preference_order [where rm = data_only_message]
        extract_preference_order [where rm = bare_message]
  by (simp add: notification_message_def data_only_message_def bare_message_def or_else_def)

text \<open>
  C10. Frame of \<open>upsert\<close>: every position of the list whose record has another
  identifier than the incoming one holds the same record afterwards. When the incoming
  identifier is new, the list is the old list with one record for that identifier added
  at the end.
\<close>

theorem upsert_frame:
  "(\<forall>i<length ns. id' (ns ! i) \<noteq> nid \<longrightarrow>
       i < length (upsert ns nid e forced now) \<and> upsert ns nid e forced now ! i = ns ! i) \<and>
   (nid \<notin> id' ` set ns \<longrightarrow>
       take (length ns) (upsert ns nid e forced now) = ns \<and>
       length (upsert ns nid e forced now) = length ns + 1 \<and>
       id' (last (upsert ns nid e forced now)) = nid)"
proof (cases "nid \<in> id' ` set ns")
  case True
  then obtain pre old post where d: "ns = pre @ old # post" "id' old = nid" "\<forall>r\<in>set pre. id' r \<noteq> nid"
    using id_split_first by blast
  have u: "upsert ns nid e forced now = pre @ old\<lparr>title := title e, body := body e, data := data e,
               timestamp := now, read := forced\<rparr> # post"
    unfolding d(1) using d(3) d(2) by (rule upsert_found)
  have "upsert ns nid e forced now ! i = ns ! i" if "i < length ns" "id' (ns ! i) \<noteq> nid" for i
  proof -
    from that d have "i \<noteq> length pre" by auto
    then have "(pre @ old\<lparr>title := title e, body := body e, data := data e,
               timestamp := now, read := forced\<rparr> # post) ! i = (pre @ old # post) ! i"
      by (simp add: nth_append nth_Cons')
    moreover have "upsert (pre @ old # post) nid e forced now = pre @ old\<lparr>title := title e,
               body := body e, data := data e, timestamp := now, read := forced\<rparr> # post"
      using d(3) d(2) by (rule upsert_found)
    ultimately show ?thesis by (simp only: d(1))
  qed
  moreover have "length (upsert ns nid e forced now) = length ns"
    by (simp add: u) (simp add: d(1))
  ultimately show ?thesis using True by simp
next
  case False
  then show ?thesis by (simp add: upsert_novel nth_append)
qed

theorem upsert_frame_witness:
  "(0 < length [m1_unread] \<and> id' ([m1_unread] ! 0) \<noteq> ''m2'' \<and>
      upsert [m1_unread] ''m2'' hi_there False 7 ! 0 = [m1_unread] ! 0) \<and>
   (''m2'' \<notin> id' ` set [m1_unread] \<and>
      take (length [m1_unread]) (upsert [m1_unread] ''m2'' hi_there False 7) = [m1_unread])"
  using upsert_frame [where nid = "''m2''" and ns = "[m1_unread]" and e = hi_there
          and forced = False and now = 7]
  by (simp add: m1_unread_def)

section \<open>Scenarios\<close>

text \<open>
  The empty ledger and a foreground delivery of the message \<open>m1\<close> with the
  notification block \<open>Hi\<close> / \<open>There\<close>: one record, unread, and the count is one.
\<close>

lemma scenario_foreground_delivery:
  "upsert [] ''m1''
     (extractNotificationContent
        \<lparr>notification = Some \<lparr>title_n = Some ''Hi'', body_n = Some ''There''\<rparr>,
         data_rm = None, messageId = Some ''m1''\<rparr>) False 5 =
     [\<lparr>title = ''Hi'', body = ''There'', data = None,
       id' = ''m1'', timestamp = 5, read = False\<rparr>] \<and>
   computeUnreadCount
     (upsert [] ''m1''
        (extractNotificationContent
           \<lparr>notification = Some \<lparr>title_n = Some ''Hi'', body_n = Some ''There''\<rparr>,
            data_rm = None, messageId = Some ''m1''\<rparr>) False 5) = 1"
  by (simp add: upsert_def findIndex_def extractNotificationContent_def or_else_def
      computeUnreadCount_def)

text \<open>
  A ledger with the unread record \<open>m1\<close> and a tap that launched the application for
  \<open>m1\<close>: the record is read and the count is zero.
\<close>

lemma scenario_terminated_launch_tap:
  "map read (upsert [m1_unread] ''m1'' hi_there True 9) = [True] \<and>
   computeUnreadCount (upsert [m1_unread] ''m1'' hi_there True 9) = 0"
  by (simp add: upsert_def findIndex_def computeUnreadCount_def m1_unread_def)

text \<open>Two unread records and mark-all-read: both are read and the count is zero.\<close>

lemma scenario_mark_all_read:
  "map read (markAllRead [m1_unread, m1_unread\<lparr>id' := ''m2''\<rparr>]) = [True, True] \<and>
   computeUnreadCount (markAllRead [m1_unread, m1_unread\<lparr>id' := ''m2''\<rparr>]) = 0"
  by (simp add: markAllRead_def computeUnreadCount_def)

text \<open>A message without identifier takes the decimal digits of the clock as identifier.\<close>

lemma scenario_generated_id:
  "or_else (messageId data_only_message) (toString 1730000000000) = ''1730000000000'' \<and>
   or_else (messageId bare_message) (toString 42) = ''42''"
  by (simp add: or_else_def toString_def data_only_message_def bare_message_def)

end
